theory Spec2Isabelle
  imports Main
begin

section \<open>Time\<close>

text \<open>
  A timestamp is a number of microseconds since the epoch, the resolution of a PostgreSQL
  \<^verbatim>\<open>timestamp\<close> and of Python's \<^verbatim>\<open>datetime\<close>. One call reads the clock at one instant
  \<open>now\<close>: \<^verbatim>\<open>CURRENT_TIMESTAMP\<close> and \<^verbatim>\<open>datetime.now()\<close> of the same call are that instant.
\<close>

type_synonym timestamp = int

definition seconds :: "int \<Rightarrow> int" where
  \<comment> \<open>\<^verbatim>\<open>interval '1 second' * n\<close>, \<^verbatim>\<open>timedelta(seconds=n)\<close>, in microseconds\<close>
  "seconds n = 1000000 * n"


section \<open>The tables\<close>

record user_row =
  u_user_id :: int
  u_username :: string
  u_email :: string
  u_password_hash :: string
  u_is_active :: bool
  u_activation_token :: "string option"
  u_activation_token_created_at :: "timestamp option"
  u_reset_password_token :: "string option"
  u_failed_login_attempts :: int
  u_account_locked_until :: "timestamp option"
  u_last_failed_login :: "timestamp option"
  u_last_login :: "timestamp option"

record session_row =
  s_session_id :: int
  s_user_id :: int
  s_session_token :: string
  s_ip_address :: string
  s_user_agent :: string
  s_expires_at :: timestamp
  s_is_active :: bool

record login_history_row =
  lh_user_id :: "int option"
  lh_ip_address :: "string option"
  lh_user_agent :: "string option"
  lh_login_successful :: bool
  lh_failure_reason :: "string option"
  lh_timestamp :: timestamp

record throttle_rule =
  tr_endpoint :: string
  tr_max_attempts :: int
  tr_time_window :: int
  tr_lockout_duration :: int

record throttle_log_row =
  tl_ip_address :: string
  tl_endpoint :: string
  tl_timestamp :: timestamp
  tl_is_blocked :: bool

text \<open>
  The committed contents of the database. A table is the list of its rows; \<^verbatim>\<open>fetchone()\<close>
  after a \<^verbatim>\<open>SELECT\<close> is the first row that satisfies the \<^verbatim>\<open>WHERE\<close> clause, an
  \<^verbatim>\<open>UPDATE\<close> rewrites every row that satisfies it, an \<^verbatim>\<open>INSERT\<close> appends a row whose
  \<^verbatim>\<open>timestamp\<close> column takes its default, the current time.
\<close>

record db =
  users :: "user_row list"
  user_sessions :: "session_row list"
  login_history :: "login_history_row list"
  throttle_rules :: "throttle_rule list"
  throttle_log :: "throttle_log_row list"

section \<open>Storage failures\<close>

text \<open>
  Every manager method opens a connection, runs its statements and commits when the
  \<^verbatim>\<open>with\<close> block is left; each of these may raise. A value of \<open>faults\<close> says which
  storage operations of one call raise: \<open>Execute n\<close> is the \<open>n\<close>-th \<^verbatim>\<open>cur.execute\<close> of the
  method in source order. An exception leaves the \<^verbatim>\<open>with\<close> block by a rollback, so the
  committed database is the one the call started from.
\<close>

datatype db_op = Connect | Execute nat | Commit

datatype error = StorageError db_op | AttributeError | ValueError

type_synonym faults = "db_op \<Rightarrow> bool"

definition no_fault :: faults where
  "no_fault = (\<lambda>_. False)"

definition commit :: "faults \<Rightarrow> 'a \<Rightarrow> error + 'a" where
  "commit f r = (if f Commit then Inl (StorageError Commit) else Inr r)"

section \<open>SecurityManager\<close>

definition window_rows :: "db \<Rightarrow> timestamp \<Rightarrow> string \<Rightarrow> string \<Rightarrow> int \<Rightarrow> throttle_log_row list" where
  \<comment> \<open>the rows of \<^verbatim>\<open>throttle_log\<close> with \<^verbatim>\<open>ip_address = %s AND endpoint = %s AND
      timestamp > CURRENT_TIMESTAMP - interval '1 second' * %s\<close>\<close>
  "window_rows d now ip_address endpoint time_window =
     filter (\<lambda>e. tl_ip_address e = ip_address \<and> tl_endpoint e = endpoint
                 \<and> tl_timestamp e > now - seconds time_window) (throttle_log d)"

definition select_rule :: "db \<Rightarrow> string \<Rightarrow> throttle_rule option" where
  "select_rule d endpoint = find (\<lambda>r. tr_endpoint r = endpoint) (throttle_rules d)"

definition check_rate_limit_body ::
  "faults \<Rightarrow> db \<Rightarrow> timestamp \<Rightarrow> string \<Rightarrow> string \<Rightarrow> error + (bool \<times> db)" where
  "check_rate_limit_body f d now ip_address endpoint =
     (if f Connect then Inl (StorageError Connect)
      else if f (Execute 1) then Inl (StorageError (Execute 1))
      else case select_rule d endpoint of
        None \<Rightarrow> commit f (True, d)
      | Some rule \<Rightarrow>
          if f (Execute 2) then Inl (StorageError (Execute 2))
          else
            let attempt_count = int (length (window_rows d now ip_address endpoint (tr_time_window rule)));
                is_blocked = (attempt_count \<ge> tr_max_attempts rule)
            in if f (Execute 3) then Inl (StorageError (Execute 3))
               else commit f
                 (\<not> is_blocked,
                  d\<lparr>throttle_log := throttle_log d @
                     [\<lparr>tl_ip_address = ip_address, tl_endpoint = endpoint,
                       tl_timestamp = now, tl_is_blocked = is_blocked\<rparr>]\<rparr>))"

definition check_rate_limit :: "faults \<Rightarrow> db \<Rightarrow> timestamp \<Rightarrow> string \<Rightarrow> string \<Rightarrow> bool \<times> db" where
  \<comment> \<open>\<^verbatim>\<open>except Exception: return False\<close>\<close>
  "check_rate_limit f d now ip_address endpoint =
     (case check_rate_limit_body f d now ip_address endpoint of
        Inl e \<Rightarrow> (False, d)
      | Inr r \<Rightarrow> r)"





section \<open>SessionManager\<close>

definition session_matches :: "timestamp \<Rightarrow> string \<Rightarrow> string \<Rightarrow> string \<Rightarrow> session_row \<Rightarrow> bool" where
  \<comment> \<open>\<^verbatim>\<open>session_token = %s AND ip_address = %s AND user_agent = %s AND
      expires_at > CURRENT_TIMESTAMP AND is_active = TRUE\<close>\<close>
  "session_matches now session_token ip_address user_agent s =
     (s_session_token s = session_token \<and> s_ip_address s = ip_address
      \<and> s_user_agent s = user_agent \<and> s_expires_at s > now \<and> s_is_active s)"

definition verify_session_body ::
  "faults \<Rightarrow> db \<Rightarrow> timestamp \<Rightarrow> string \<Rightarrow> string \<Rightarrow> string \<Rightarrow> error + (int option \<times> db)" where
  "verify_session_body f d now session_token ip_address user_agent =
     (if f Connect then Inl (StorageError Connect)
      else if f (Execute 1) then Inl (StorageError (Execute 1))
      else case find (session_matches now session_token ip_address user_agent) (user_sessions d) of
        None \<Rightarrow> commit f (None, d)
      | Some result \<Rightarrow> commit f (Some (s_user_id result), d))"

definition verify_session ::
  "faults \<Rightarrow> db \<Rightarrow> timestamp \<Rightarrow> string \<Rightarrow> string \<Rightarrow> string \<Rightarrow> int option \<times> db" where
  \<comment> \<open>\<^verbatim>\<open>except Exception: return None\<close>\<close>
  "verify_session f d now session_token ip_address user_agent =
     (case verify_session_body f d now session_token ip_address user_agent of
        Inl e \<Rightarrow> (None, d)
      | Inr r \<Rightarrow> r)"

definition invalidate_session_body :: "faults \<Rightarrow> db \<Rightarrow> string \<Rightarrow> error + (bool \<times> db)" where
  \<comment> \<open>\<^verbatim>\<open>UPDATE user_sessions SET is_active = FALSE WHERE session_token = %s RETURNING
      session_id\<close>, then \<^verbatim>\<open>cur.fetchone() is not None\<close>: whether a row was updated\<close>
  "invalidate_session_body f d session_token =
     (if f Connect then Inl (StorageError Connect)
      else if f (Execute 1) then Inl (StorageError (Execute 1))
      else
        let returning = filter (\<lambda>s. s_session_token s = session_token) (user_sessions d);
            d' = d\<lparr>user_sessions :=
                    map (\<lambda>s. if s_session_token s = session_token then s\<lparr>s_is_active := False\<rparr> else s)
                      (user_sessions d)\<rparr>
        in commit f (returning \<noteq> [], d'))"

definition invalidate_session :: "faults \<Rightarrow> db \<Rightarrow> string \<Rightarrow> bool \<times> db" where
  \<comment> \<open>\<^verbatim>\<open>except Exception: return False\<close>\<close>
  "invalidate_session f d session_token =
     (case invalidate_session_body f d session_token of
        Inl e \<Rightarrow> (False, d)
      | Inr r \<Rightarrow> r)"

section \<open>UserManager\<close>

text \<open>
  \<^verbatim>\<open>bcrypt.checkpw\<close> is a parameter of the model: \<open>checkpw password hash\<close> is \<open>Some True\<close>
  when the password matches the stored hash, \<open>Some False\<close> when it does not, and \<open>None\<close>
  when the library raises (a stored hash that is not a bcrypt hash).
\<close>

type_synonym checkpw = "string \<Rightarrow> string \<Rightarrow> bool option"

record login_row =
  \<comment> \<open>the columns \<^verbatim>\<open>verify_user\<close> selects, and returns as a dict on success\<close>
  l_user_id :: int
  l_username :: string
  l_password_hash :: string
  l_is_active :: bool
  l_failed_login_attempts :: int
  l_account_locked_until :: "timestamp option"

definition select_login_row :: "user_row \<Rightarrow> login_row" where
  "select_login_row u =
     \<lparr>l_user_id = u_user_id u, l_username = u_username u, l_password_hash = u_password_hash u,
      l_is_active = u_is_active u, l_failed_login_attempts = u_failed_login_attempts u,
      l_account_locked_until = u_account_locked_until u\<rparr>"

definition log_login_attempt ::
  "faults \<Rightarrow> db \<Rightarrow> timestamp \<Rightarrow> int option \<Rightarrow> string option \<Rightarrow> string option \<Rightarrow> bool
     \<Rightarrow> string option \<Rightarrow> db" where
  \<comment> \<open>\<^verbatim>\<open>_log_login_attempt\<close>: its own connection and transaction, committed on its own;
      every exception is swallowed\<close>
  "log_login_attempt lf d now user_id ip_address user_agent successful failure_reason =
     (if lf Connect \<or> lf (Execute 1) \<or> lf Commit then d
      else d\<lparr>login_history := login_history d @
              [\<lparr>lh_user_id = user_id, lh_ip_address = ip_address, lh_user_agent = user_agent,
                lh_login_successful = successful, lh_failure_reason = failure_reason,
                lh_timestamp = now\<rparr>]\<rparr>)"

definition is_locked :: "timestamp \<Rightarrow> login_row \<Rightarrow> bool" where
  \<comment> \<open>\<^verbatim>\<open>user['account_locked_until'] and user['account_locked_until'] > datetime.now()\<close>\<close>
  "is_locked now user =
     (case l_account_locked_until user of None \<Rightarrow> False | Some until \<Rightarrow> until > now)"

definition failed_login_update :: "timestamp \<Rightarrow> user_row \<Rightarrow> user_row" where
  \<comment> \<open>the \<^verbatim>\<open>SET\<close> clause of the wrong-password \<^verbatim>\<open>UPDATE\<close>; every right-hand side reads
      the row as it was before the statement\<close>
  "failed_login_update now u =
     u\<lparr>u_failed_login_attempts := u_failed_login_attempts u + 1,
       u_last_failed_login := Some now,
       u_account_locked_until :=
         (if u_failed_login_attempts u + 1 \<ge> 5 then Some (now + seconds (15 * 60))
          else u_account_locked_until u)\<rparr>"

definition successful_login_update :: "timestamp \<Rightarrow> user_row \<Rightarrow> user_row" where
  "successful_login_update now u =
     u\<lparr>u_failed_login_attempts := 0, u_account_locked_until := None, u_last_login := Some now\<rparr>"

definition update_users_where_id :: "int \<Rightarrow> (user_row \<Rightarrow> user_row) \<Rightarrow> db \<Rightarrow> db" where
  \<comment> \<open>\<^verbatim>\<open>UPDATE users SET ... WHERE user_id = %s\<close>\<close>
  "update_users_where_id uid upd d =
     d\<lparr>users := map (\<lambda>u. if u_user_id u = uid then upd u else u) (users d)\<rparr>"

text \<open>
  The body of \<^verbatim>\<open>verify_user\<close> returns its outcome together with the committed database:
  a history entry is committed by \<^verbatim>\<open>_log_login_attempt\<close> before the method's own
  transaction ends, so it stays when that transaction is rolled back.
\<close>

definition verify_user_body ::
  "faults \<Rightarrow> faults \<Rightarrow> checkpw \<Rightarrow> db \<Rightarrow> timestamp \<Rightarrow> string \<Rightarrow> string \<Rightarrow> string option
     \<Rightarrow> string option \<Rightarrow> (error + login_row option) \<times> db" where
  "verify_user_body lf f chk d now username password ip_address user_agent =
     (if f Connect then (Inl (StorageError Connect), d)
      else if f (Execute 1) then (Inl (StorageError (Execute 1)), d)
      else case find (\<lambda>u. u_username u = username) (users d) of
        None \<Rightarrow>
          (commit f None,
           log_login_attempt lf d now None ip_address user_agent False (Some ''User not found''))
      | Some row \<Rightarrow>
          let user = select_login_row row in
          if is_locked now user then
            (commit f None,
             log_login_attempt lf d now (Some (l_user_id user)) ip_address user_agent False
               (Some ''Account locked''))
          else (case chk password (l_password_hash user) of
            None \<Rightarrow> (Inl ValueError, d)
          | Some False \<Rightarrow>
              if f (Execute 2) then (Inl (StorageError (Execute 2)), d)
              else
                let d1 = log_login_attempt lf d now (Some (l_user_id user)) ip_address user_agent
                           False (Some ''Invalid password'')
                in if f Commit then (Inl (StorageError Commit), d1)
                   else (Inr None, update_users_where_id (l_user_id user) (failed_login_update now) d1)
          | Some True \<Rightarrow>
              if \<not> l_is_active user then
                (commit f None,
                 log_login_attempt lf d now (Some (l_user_id user)) ip_address user_agent False
                   (Some ''Account not activated''))
              else if f (Execute 3) then (Inl (StorageError (Execute 3)), d)
              else
                let d1 = log_login_attempt lf d now (Some (l_user_id user)) ip_address user_agent
                           True None
                in if f Commit then (Inl (StorageError Commit), d1)
                   else (Inr (Some user),
                         update_users_where_id (l_user_id user) (successful_login_update now) d1)))"

definition verify_user ::
  "faults \<Rightarrow> faults \<Rightarrow> checkpw \<Rightarrow> db \<Rightarrow> timestamp \<Rightarrow> string \<Rightarrow> string \<Rightarrow> string option
     \<Rightarrow> string option \<Rightarrow> login_row option \<times> db" where
  \<comment> \<open>\<^verbatim>\<open>except Exception: return None\<close>\<close>
  "verify_user lf f chk d now username password ip_address user_agent =
     (case verify_user_body lf f chk d now username password ip_address user_agent of
        (Inl e, d') \<Rightarrow> (None, d')
      | (Inr r, d') \<Rightarrow> (r, d'))"

definition activation_update :: "user_row \<Rightarrow> user_row" where
  "activation_update u =
     u\<lparr>u_is_active := True, u_activation_token := None, u_activation_token_created_at := None\<rparr>"

definition activate_user_body :: "faults \<Rightarrow> db \<Rightarrow> timestamp \<Rightarrow> string \<Rightarrow> error + (bool \<times> db)" where
  "activate_user_body f d now token =
     (if f Connect then Inl (StorageError Connect)
      else if f (Execute 1) then Inl (StorageError (Execute 1))
      else case find (\<lambda>u. u_activation_token u = Some token) (users d) of
        None \<Rightarrow> commit f (False, d)
      | Some user \<Rightarrow>
          if u_is_active user then commit f (True, d)
          else (case u_activation_token_created_at user of
            None \<Rightarrow> Inl AttributeError
          | Some token_created_at \<Rightarrow>
              if token_created_at < now - seconds (24 * 60 * 60) then commit f (False, d)
              else if f (Execute 2) then Inl (StorageError (Execute 2))
              else commit f (True, update_users_where_id (u_user_id user) activation_update d)))"

definition activate_user :: "faults \<Rightarrow> db \<Rightarrow> timestamp \<Rightarrow> string \<Rightarrow> bool \<times> db" where
  \<comment> \<open>\<^verbatim>\<open>except Exception: return False\<close>\<close>
  "activate_user f d now token =
     (case activate_user_body f d now token of
        Inl e \<Rightarrow> (False, d)
      | Inr r \<Rightarrow> r)"

section \<open>Example states\<close>

text \<open>
  A small database on which the theorems below are instantiated: six accounts in the states
  the credential verifier and the activation path distinguish, one session, one throttle
  rule \<open>(max_attempts = 5, time_window = 60)\<close> for \<open>login\<close>, and five logged attempts of one
  client inside the last minute.
\<close>

definition t_now :: timestamp where
  "t_now = seconds 1000000"

definition example_checkpw :: checkpw where
  "example_checkpw password hash =
     (if hash = ''corrupt'' then None else Some (hash = ''h:'' @ password))"

definition example_user :: "int \<Rightarrow> string \<Rightarrow> user_row" where
  "example_user uid name =
     \<lparr>u_user_id = uid, u_username = name, u_email = name @ ''@x.org'',
      u_password_hash = ''h:'' @ name @ ''-Pw1!'', u_is_active = True,
      u_activation_token = None, u_activation_token_created_at = None,
      u_reset_password_token = None, u_failed_login_attempts = 0,
      u_account_locked_until = None, u_last_failed_login = None, u_last_login = None\<rparr>"

definition example_session :: session_row where
  "example_session =
     \<lparr>s_session_id = 1, s_user_id = 1, s_session_token = ''s1'', s_ip_address = ''10.0.0.1'',
      s_user_agent = ''ua1'', s_expires_at = t_now + seconds 3600, s_is_active = True\<rparr>"

definition example_attempt :: "int \<Rightarrow> throttle_log_row" where
  "example_attempt age =
     \<lparr>tl_ip_address = ''10.0.0.1'', tl_endpoint = ''login'', tl_timestamp = t_now - seconds age,
      tl_is_blocked = False\<rparr>"

definition example_rule :: throttle_rule where
  "example_rule =
     \<lparr>tr_endpoint = ''login'', tr_max_attempts = 5, tr_time_window = 60,
      tr_lockout_duration = 300\<rparr>"

definition example_alice :: user_row where
  "example_alice = example_user 1 ''alice''"

definition example_bob :: user_row where
  \<comment> \<open>locked for another ten minutes\<close>
  "example_bob =
     (example_user 2 ''bob'')
       \<lparr>u_failed_login_attempts := 5, u_account_locked_until := Some (t_now + seconds 600)\<rparr>"

definition example_carol :: user_row where
  \<comment> \<open>five failures, the lock expired a minute ago\<close>
  "example_carol =
     (example_user 3 ''carol'')
       \<lparr>u_failed_login_attempts := 5, u_account_locked_until := Some (t_now - seconds 60)\<rparr>"

definition example_dave :: user_row where
  \<comment> \<open>inactive, activation token one hour old\<close>
  "example_dave =
     (example_user 4 ''dave'')
       \<lparr>u_is_active := False, u_activation_token := Some ''a4'',
        u_activation_token_created_at := Some (t_now - seconds 3600)\<rparr>"

definition example_erin :: user_row where
  \<comment> \<open>inactive, activation token twenty-five hours old\<close>
  "example_erin =
     (example_user 5 ''erin'')
       \<lparr>u_is_active := False, u_activation_token := Some ''a5'',
        u_activation_token_created_at := Some (t_now - seconds 90000)\<rparr>"

definition example_frank :: user_row where
  \<comment> \<open>active and still holding its activation token, as \<^verbatim>\<open>create_user\<close> leaves an account\<close>
  "example_frank =
     (example_user 6 ''frank'')
       \<lparr>u_activation_token := Some ''a6'',
        u_activation_token_created_at := Some (t_now - seconds 90000)\<rparr>"

definition example_db :: db where
  "example_db =
     \<lparr>users = [example_alice, example_bob, example_carol, example_dave, example_erin,
               example_frank],
      user_sessions = [example_session],
      login_history = [],
      throttle_rules = [example_rule],
      throttle_log = map example_attempt [50, 40, 30, 20, 10]\<rparr>"

definition example_gina :: user_row where
  \<comment> \<open>inactive, holding an activation token whose creation time is not recorded\<close>
  "example_gina =
     (example_user 7 ''gina'')\<lparr>u_is_active := False, u_activation_token := Some ''a7''\<rparr>"

definition example_gina_db :: db where
  "example_gina_db = example_db\<lparr>users := [example_gina]\<rparr>"

lemmas example_users =
  example_alice_def example_bob_def example_carol_def example_dave_def example_erin_def
  example_frank_def example_user_def

lemmas example_defs =
  example_db_def example_users example_session_def example_attempt_def example_rule_def
  example_checkpw_def t_now_def seconds_def

section \<open>Throttle engine\<close>





text \<open>
  C9. If a storage operation that \<open>check_rate_limit\<close> attempts fails (the connection, the
  rule lookup, the count or the insert when a rule exists, or the commit), the call returns
  \<open>False\<close>: the request is denied, no exception leaves the method, and the database is as it
  was.
\<close>

theorem check_rate_limit_fails_closed:
  "f Connect \<or> f (Execute 1)
     \<or> (select_rule d endpoint \<noteq> None \<and> (f (Execute 2) \<or> f (Execute 3)))
     \<or> f Commit
   \<Longrightarrow> check_rate_limit f d now ip endpoint = (False, d)"
  by (auto simp: check_rate_limit_def check_rate_limit_body_def commit_def Let_def
      split: option.splits)

theorem check_rate_limit_fails_closed_witness:
  "select_rule example_db ''login'' \<noteq> None
   \<and> check_rate_limit (\<lambda>op. op = Execute 3) example_db t_now ''10.0.0.2'' ''login''
       = (False, example_db)
   \<and> check_rate_limit (\<lambda>op. op = Commit) example_db t_now ''10.0.0.2'' ''search''
       = (False, example_db)"
  using check_rate_limit_fails_closed [where f = "\<lambda>op. op = Execute 3" and d = example_db
          and endpoint = "''login''" and now = t_now and ip = "''10.0.0.2''"]
        check_rate_limit_fails_closed [where f = "\<lambda>op. op = Commit" and d = example_db
          and endpoint = "''search''" and now = t_now and ip = "''10.0.0.2''"]
  by (simp add: select_rule_def example_defs)

section \<open>Session manager\<close>

lemma find_SomeD: "find P xs = Some x \<Longrightarrow> x \<in> set xs \<and> P x"
  by (induction xs) (auto split: if_splits)

lemma find_Some_unique:
  "distinct (map key xs) \<Longrightarrow> x \<in> set xs \<Longrightarrow> P x \<Longrightarrow> (\<And>y. P y \<Longrightarrow> key y = k)
     \<Longrightarrow> find P xs = Some x"
proof (induction xs)
  case Nil
  then show ?case by simp
next
  case (Cons a xs)
  show ?case
  proof (cases "P a")
    case True
    have "a = x"
    proof (rule ccontr)
      assume "a \<noteq> x"
      with Cons.prems(2) have "x \<in> set xs" by simp
      then have "key x \<in> set (map key xs)" by simp
      moreover have "key a = key x" using Cons.prems(3,4) True by simp
      ultimately show False using Cons.prems(1) by simp
    qed
    with True show ?thesis by simp
  next
    case False
    with Cons.prems have "x \<in> set xs" by auto
    with Cons False show ?thesis by simp
  qed
qed

text \<open>
  C5. Without storage failures, \<open>verify_session\<close> returns a user id exactly when some
  session row has the presented token, is active, expires strictly after \<open>now\<close> and carries
  exactly the presented ip address and user agent; the id it returns is the \<open>user_id\<close> of
  such a row, and when tokens are unique it returns \<open>uid\<close> if and only if that row belongs
  to \<open>uid\<close>. In every other case, expiry and a changed fingerprint component included, it
  returns \<open>None\<close>. The call never changes the database.
\<close>

theorem verify_session_iff:
  "(fst (verify_session no_fault d now tok ip ua) \<noteq> None) =
     (\<exists>s\<in>set (user_sessions d). s_session_token s = tok \<and> s_is_active s \<and> now < s_expires_at s
        \<and> s_ip_address s = ip \<and> s_user_agent s = ua)
   \<and> (\<forall>uid. fst (verify_session no_fault d now tok ip ua) = Some uid \<longrightarrow>
        (\<exists>s\<in>set (user_sessions d). s_session_token s = tok \<and> s_is_active s
           \<and> now < s_expires_at s \<and> s_ip_address s = ip \<and> s_user_agent s = ua
           \<and> s_user_id s = uid))
   \<and> (distinct (map s_session_token (user_sessions d)) \<longrightarrow>
        (\<forall>uid. (fst (verify_session no_fault d now tok ip ua) = Some uid) =
           (\<exists>s\<in>set (user_sessions d). s_session_token s = tok \<and> s_is_active s
              \<and> now < s_expires_at s \<and> s_ip_address s = ip \<and> s_user_agent s = ua
              \<and> s_user_id s = uid)))
   \<and> snd (verify_session f d now tok ip ua) = d"
proof -
  let ?P = "session_matches now tok ip ua"
  let ?r = "find ?P (user_sessions d)"
  have res: "fst (verify_session no_fault d now tok ip ua) = map_option s_user_id ?r"
    by (simp add: verify_session_def verify_session_body_def commit_def no_fault_def
        split: option.splits)
  have P: "?P s = (s_session_token s = tok \<and> s_is_active s \<and> now < s_expires_at s
             \<and> s_ip_address s = ip \<and> s_user_agent s = ua)" for s
    by (auto simp: session_matches_def)
  have a: "(?r \<noteq> None) = (\<exists>s\<in>set (user_sessions d). ?P s)"
    by (auto simp: find_None_iff)
  have b: "\<exists>s\<in>set (user_sessions d). ?P s \<and> s_user_id s = uid"
    if "map_option s_user_id ?r = Some uid" for uid
  proof -
    from that obtain s where "?r = Some s" "s_user_id s = uid" by auto
    then show ?thesis using find_SomeD [of ?P "user_sessions d" s] by auto
  qed
  have c: "map_option s_user_id ?r = Some uid"
    if dist: "distinct (map s_session_token (user_sessions d))"
      and ex: "\<exists>s\<in>set (user_sessions d). ?P s \<and> s_user_id s = uid" for uid
  proof -
    from ex obtain s where s: "s \<in> set (user_sessions d)" "?P s" "s_user_id s = uid" by auto
    have "?r = Some s"
      by (rule find_Some_unique [where key = s_session_token and k = tok and P = ?P
            and xs = "user_sessions d" and x = s, OF dist s(1) s(2)])
         (simp add: session_matches_def)
    with s(3) show ?thesis by simp
  qed
  have d: "snd (verify_session f d now tok ip ua) = d"
    by (simp add: verify_session_def verify_session_body_def commit_def split: option.splits)
  show ?thesis
    unfolding res using a b c d by (simp only: P) blast
qed

theorem verify_session_iff_witness:
  "distinct (map s_session_token (user_sessions example_db))
   \<and> fst (verify_session no_fault example_db t_now ''s1'' ''10.0.0.1'' ''ua1'') = Some 1
   \<and> fst (verify_session no_fault example_db t_now ''s1'' ''10.0.0.2'' ''ua1'') = None
   \<and> fst (verify_session no_fault example_db t_now ''s1'' ''10.0.0.1'' ''ua2'') = None
   \<and> fst (verify_session no_fault example_db (t_now + seconds 3600) ''s1'' ''10.0.0.1'' ''ua1'')
       = None"
proof -
  have s: "user_sessions example_db = [example_session]"
    by (simp add: example_db_def)
  note t = verify_session_iff [where f = no_fault and d = example_db and tok = "''s1''"]
  have "fst (verify_session no_fault example_db t_now ''s1'' ''10.0.0.1'' ''ua1'') = Some 1"
    using t [where now = t_now and ip = "''10.0.0.1''" and ua = "''ua1''",
        THEN conjunct2, THEN conjunct2, THEN conjunct1]
    by (simp add: s example_session_def t_now_def seconds_def)
  moreover have "fst (verify_session no_fault example_db t_now ''s1'' ''10.0.0.2'' ''ua1'') = None"
    using t [where now = t_now and ip = "''10.0.0.2''" and ua = "''ua1''", THEN conjunct1]
    by (simp add: s example_session_def)
  moreover have "fst (verify_session no_fault example_db t_now ''s1'' ''10.0.0.1'' ''ua2'') = None"
    using t [where now = t_now and ip = "''10.0.0.1''" and ua = "''ua2''", THEN conjunct1]
    by (simp add: s example_session_def)
  moreover have "fst (verify_session no_fault example_db (t_now + seconds 3600) ''s1''
                   ''10.0.0.1'' ''ua1'') = None"
    using t [where now = "t_now + seconds 3600" and ip = "''10.0.0.1''" and ua = "''ua1''",
        THEN conjunct1]
    by (simp add: s example_session_def)
  ultimately show ?thesis by (simp add: s)
qed

text \<open>
  C6, as the code has it. Without storage failures, \<open>invalidate_session\<close> returns whether a
  session row with the token exists, and sets \<open>is_active\<close> to false on every such row,
  leaving all other rows and tables as they were. The statement has no condition on
  \<open>is_active\<close> and the row is not deleted, so a second call on the same token finds the
  row again: it returns the same value as the first call (\<open>True\<close> when the row exists) and
  changes nothing further.
\<close>

theorem invalidate_session_idempotent:
  "fst (invalidate_session no_fault d tok) = (\<exists>s\<in>set (user_sessions d). s_session_token s = tok)
   \<and> snd (invalidate_session no_fault d tok) =
       d\<lparr>user_sessions :=
            map (\<lambda>s. if s_session_token s = tok then s\<lparr>s_is_active := False\<rparr> else s)
              (user_sessions d)\<rparr>
   \<and> invalidate_session no_fault (snd (invalidate_session no_fault d tok)) tok =
       invalidate_session no_fault d tok"
proof -
  let ?upd = "\<lambda>s. if s_session_token s = tok then s\<lparr>s_is_active := False\<rparr> else s"
  have r: "invalidate_session no_fault d tok =
             (filter (\<lambda>s. s_session_token s = tok) (user_sessions d) \<noteq> [],
              d\<lparr>user_sessions := map ?upd (user_sessions d)\<rparr>)" for d
    by (simp add: invalidate_session_def invalidate_session_body_def commit_def no_fault_def
        Let_def)
  have f: "(filter (\<lambda>s. s_session_token s = tok) xs \<noteq> []) =
             (\<exists>s\<in>set xs. s_session_token s = tok)" for xs :: "session_row list"
    by (auto simp: filter_empty_conv)
  have m: "map ?upd (map ?upd xs) = map ?upd xs" for xs :: "session_row list"
    by (induction xs) auto
  have k: "(\<exists>s\<in>set (map ?upd xs). s_session_token s = tok) =
             (\<exists>s\<in>set xs. s_session_token s = tok)" for xs :: "session_row list"
    by (induction xs) auto
  show ?thesis
    by (simp add: r f m k del: set_map)
qed

text \<open>
  The claim's second call does not return \<open>False\<close>: on the example database the session
  \<open>s1\<close> is invalidated twice and the second call returns \<open>True\<close>.
\<close>

theorem invalidate_session_twice_counterexample:
  "fst (invalidate_session no_fault example_db ''s1'') = True
   \<and> fst (invalidate_session no_fault (snd (invalidate_session no_fault example_db ''s1'')) ''s1'')
       = True"
  by (simp add: invalidate_session_def invalidate_session_body_def commit_def no_fault_def
      Let_def example_db_def example_session_def)

section \<open>Credential verifier\<close>

lemma is_locked_iff:
  "is_locked now (select_login_row row) =
     (\<exists>until. u_account_locked_until row = Some until \<and> now < until)"
  by (simp add: is_locked_def select_login_row_def split: option.splits)

lemma select_login_row_simps:
  "l_user_id (select_login_row row) = u_user_id row"
  "l_password_hash (select_login_row row) = u_password_hash row"
  "l_is_active (select_login_row row) = u_is_active row"
  by (simp_all add: select_login_row_def)

lemma find_example_user:
  "find (\<lambda>u. u_username u = ''alice'') (users example_db) = Some example_alice"
  "find (\<lambda>u. u_username u = ''bob'') (users example_db) = Some example_bob"
  "find (\<lambda>u. u_username u = ''carol'') (users example_db) = Some example_carol"
  "find (\<lambda>u. u_username u = ''dave'') (users example_db) = Some example_dave"
  "find (\<lambda>u. u_username u = ''zoe'') (users example_db) = None"
  by (simp_all add: example_db_def example_users)

text \<open>
  C2, as the code has it. When the account found for the username has
  \<open>account_locked_until\<close> strictly after \<open>now\<close>, \<open>verify_user\<close> (without storage failures)
  returns \<open>None\<close>, the one value every failure returns: the code has no failure kinds, and
  the kind is recorded only as the reason of the history entry. This holds for every
  password and every outcome of the password check, which is not consulted; the \<open>users\<close>
  table, and so \<open>failed_login_attempts\<close> and every other account field, is unchanged; the
  only change to the database is one appended history entry with reason \<open>Account locked\<close>.
\<close>

theorem verify_user_locked_account:
  assumes "find (\<lambda>u. u_username u = username) (users d) = Some row"
    and "u_account_locked_until row = Some until"
    and "now < until"
  shows "verify_user no_fault no_fault chk d now username password ip ua =
           (None,
            d\<lparr>login_history := login_history d @
                 [\<lparr>lh_user_id = Some (u_user_id row), lh_ip_address = ip, lh_user_agent = ua,
                   lh_login_successful = False, lh_failure_reason = Some ''Account locked'',
                   lh_timestamp = now\<rparr>]\<rparr>)"
proof -
  have "is_locked now (select_login_row row)"
    using assms(2,3) by (simp add: is_locked_iff)
  then show ?thesis
    using assms(1)
    by (simp add: verify_user_def verify_user_body_def log_login_attempt_def commit_def
        no_fault_def Let_def select_login_row_def)
qed

theorem verify_user_locked_account_witness:
  "fst (verify_user no_fault no_fault example_checkpw example_db t_now ''bob'' ''bob-Pw1!''
          None None) = None
   \<and> users (snd (verify_user no_fault no_fault example_checkpw example_db t_now ''bob''
                  ''bob-Pw1!'' None None)) = users example_db
   \<and> map lh_failure_reason
         (login_history (snd (verify_user no_fault no_fault example_checkpw example_db t_now
                                ''bob'' ''bob-Pw1!'' None None)))
       = [Some ''Account locked'']"
proof -
  have l: "u_account_locked_until example_bob = Some (t_now + seconds 600)"
    by (simp add: example_bob_def)
  have n: "t_now < t_now + seconds 600"
    by (simp add: seconds_def)
  have h: "login_history example_db = []"
    by (simp add: example_db_def)
  show ?thesis
    using verify_user_locked_account [OF find_example_user(2) l n,
        where chk = example_checkpw and password = "''bob-Pw1!''" and ip = None and ua = None]
    by (simp add: h)
qed

text \<open>
  The value returned for a locked account is \<open>None\<close>, the value an unknown username
  returns: no \<open>AccountLocked\<close> kind reaches the caller.
\<close>

theorem verify_user_locked_counterexample:
  "fst (verify_user no_fault no_fault example_checkpw example_db t_now ''bob'' ''bob-Pw1!''
          None None) = None
   \<and> fst (verify_user no_fault no_fault example_checkpw example_db t_now ''zoe'' ''bob-Pw1!''
            None None) = None"
  by (simp add: verify_user_def verify_user_body_def commit_def no_fault_def Let_def
      find_example_user is_locked_def select_login_row_def example_bob_def example_user_def
      t_now_def seconds_def)

text \<open>
  C3, as the code has it. When the account found for the username is not locked
  (\<open>account_locked_until\<close> is absent or not after \<open>now\<close>) and the password does not match,
  \<open>verify_user\<close> (without storage failures) returns \<open>None\<close>, appends a history entry with
  reason \<open>Invalid password\<close>, and in the account's row adds one to
  \<open>failed_login_attempts\<close>, sets \<open>last_failed_login\<close> to \<open>now\<close>, and sets
  \<open>account_locked_until\<close> to \<open>now\<close> plus fifteen minutes when the incremented counter is at
  least 5 (the code tests \<open>>= 5\<close>, not \<open>= 5\<close>); when the incremented counter is below 5,
  \<open>account_locked_until\<close> keeps its value. Nothing else changes.
\<close>

theorem verify_user_wrong_password:
  assumes "find (\<lambda>u. u_username u = username) (users d) = Some row"
    and "\<forall>until. u_account_locked_until row = Some until \<longrightarrow> until \<le> now"
    and "chk password (u_password_hash row) = Some False"
  shows "verify_user no_fault no_fault chk d now username password ip ua =
           (None,
            d\<lparr>users :=
                 map (\<lambda>u. if u_user_id u = u_user_id row
                          then u\<lparr>u_failed_login_attempts := u_failed_login_attempts u + 1,
                                 u_last_failed_login := Some now,
                                 u_account_locked_until :=
                                   (if 5 \<le> u_failed_login_attempts u + 1
                                    then Some (now + seconds (15 * 60))
                                    else u_account_locked_until u)\<rparr>
                          else u) (users d),
               login_history := login_history d @
                 [\<lparr>lh_user_id = Some (u_user_id row), lh_ip_address = ip, lh_user_agent = ua,
                   lh_login_successful = False, lh_failure_reason = Some ''Invalid password'',
                   lh_timestamp = now\<rparr>]\<rparr>)"
proof -
  have "\<not> is_locked now (select_login_row row)"
    using assms(2) by (auto simp: is_locked_iff)
  then show ?thesis
    using assms(1,3)
    by (simp add: verify_user_def verify_user_body_def log_login_attempt_def
        update_users_where_id_def failed_login_update_def no_fault_def Let_def
        select_login_row_def)
qed

theorem verify_user_wrong_password_witness:
  "map (\<lambda>u. (u_failed_login_attempts u, u_account_locked_until u, u_last_failed_login u))
      (users (snd (verify_user no_fault no_fault example_checkpw example_db t_now ''alice''
                     ''guess'' None None)))
     = [(1, None, Some t_now),
        (5, Some (t_now + seconds 600), None),
        (5, Some (t_now - seconds 60), None),
        (0, None, None), (0, None, None), (0, None, None)]
   \<and> fst (verify_user no_fault no_fault example_checkpw example_db t_now ''alice'' ''guess''
            None None) = None"
proof -
  have l: "\<forall>until. u_account_locked_until example_alice = Some until \<longrightarrow> until \<le> t_now"
    by (simp add: example_alice_def example_user_def)
  have c: "example_checkpw ''guess'' (u_password_hash example_alice) = Some False"
    by (simp add: example_checkpw_def example_alice_def example_user_def)
  show ?thesis
    using verify_user_wrong_password [where chk = example_checkpw and password = "''guess''"
        and ip = None and ua = None, OF find_example_user(1) l c]
    by (simp add: example_db_def example_users)
qed

text \<open>
  The lock is also set when the incremented counter is not 5: carol has five failures and
  a lock that expired a minute ago; one more wrong password makes the counter 6 and sets
  \<open>account_locked_until\<close> to \<open>now\<close> plus fifteen minutes.
\<close>

theorem verify_user_relock_counterexample:
  "map (\<lambda>u. (u_failed_login_attempts u, u_account_locked_until u))
      (filter (\<lambda>u. u_username u = ''carol'') (users example_db))
     = [(5, Some (t_now - seconds 60))]
   \<and> map (\<lambda>u. (u_failed_login_attempts u, u_account_locked_until u))
        (filter (\<lambda>u. u_username u = ''carol'')
           (users (snd (verify_user no_fault no_fault example_checkpw example_db t_now ''carol''
                          ''guess'' None None))))
     = [(6, Some (t_now + seconds (15 * 60)))]"
proof -
  have "verify_user no_fault no_fault example_checkpw example_db t_now ''carol'' ''guess''
          None None =
        (None, update_users_where_id 3 (failed_login_update t_now)
                 (log_login_attempt no_fault example_db t_now (Some 3) None None False
                    (Some ''Invalid password'')))"
    by (simp add: verify_user_def verify_user_body_def no_fault_def Let_def find_example_user
        is_locked_def select_login_row_def example_carol_def example_user_def example_checkpw_def
        t_now_def seconds_def)
  then show ?thesis
    by (simp add: update_users_where_id_def failed_login_update_def log_login_attempt_def
        no_fault_def example_db_def example_users)
qed

text \<open>
  C4. When the account found for the username is active, is not locked
  (\<open>account_locked_until\<close> is absent or not after \<open>now\<close>, so an expired lock does not block
  the call) and the password matches, \<open>verify_user\<close> (without storage failures) returns the
  selected columns of the account, and in the account's row sets \<open>failed_login_attempts\<close>
  to 0, clears \<open>account_locked_until\<close> and sets \<open>last_login\<close> to \<open>now\<close>; it appends one
  successful history entry, and nothing else changes.
\<close>

theorem verify_user_success:
  assumes "find (\<lambda>u. u_username u = username) (users d) = Some row"
    and "\<forall>until. u_account_locked_until row = Some until \<longrightarrow> until \<le> now"
    and "chk password (u_password_hash row) = Some True"
    and "u_is_active row"
  shows "verify_user no_fault no_fault chk d now username password ip ua =
           (Some \<lparr>l_user_id = u_user_id row, l_username = u_username row,
                  l_password_hash = u_password_hash row, l_is_active = u_is_active row,
                  l_failed_login_attempts = u_failed_login_attempts row,
                  l_account_locked_until = u_account_locked_until row\<rparr>,
            d\<lparr>users :=
                 map (\<lambda>u. if u_user_id u = u_user_id row
                          then u\<lparr>u_failed_login_attempts := 0, u_account_locked_until := None,
                                 u_last_login := Some now\<rparr>
                          else u) (users d),
               login_history := login_history d @
                 [\<lparr>lh_user_id = Some (u_user_id row), lh_ip_address = ip, lh_user_agent = ua,
                   lh_login_successful = True, lh_failure_reason = None,
                   lh_timestamp = now\<rparr>]\<rparr>)"
proof -
  have "\<not> is_locked now (select_login_row row)"
    using assms(2) by (auto simp: is_locked_iff)
  then show ?thesis
    using assms(1,3,4)
    by (simp add: verify_user_def verify_user_body_def log_login_attempt_def
        update_users_where_id_def successful_login_update_def no_fault_def Let_def
        select_login_row_def)
qed

theorem verify_user_success_witness:
  "map_option l_user_id
      (fst (verify_user no_fault no_fault example_checkpw example_db t_now ''carol''
              ''carol-Pw1!'' None None)) = Some 3
   \<and> map (\<lambda>u. (u_failed_login_attempts u, u_account_locked_until u, u_last_login u))
        (users (snd (verify_user no_fault no_fault example_checkpw example_db t_now ''carol''
                       ''carol-Pw1!'' None None)))
     = [(0, None, None),
        (5, Some (t_now + seconds 600), None),
        (0, None, Some t_now),
        (0, None, None), (0, None, None), (0, None, None)]
   \<and> map lh_login_successful
        (login_history (snd (verify_user no_fault no_fault example_checkpw example_db t_now
                               ''carol'' ''carol-Pw1!'' None None)))
     = [True]"
proof -
  have l: "\<forall>until. u_account_locked_until example_carol = Some until \<longrightarrow> until \<le> t_now"
    by (simp add: example_carol_def example_user_def seconds_def)
  have c: "example_checkpw ''carol-Pw1!'' (u_password_hash example_carol) = Some True"
    by (simp add: example_checkpw_def example_carol_def example_user_def)
  have a: "u_is_active example_carol"
    by (simp add: example_carol_def example_user_def)
  show ?thesis
    using verify_user_success [where chk = example_checkpw and password = "''carol-Pw1!''"
        and ip = None and ua = None, OF find_example_user(3) l c a]
    by (simp add: example_db_def example_users)
qed

text \<open>
  C10. Whatever storage operations fail, \<open>verify_user\<close> returns \<open>None\<close> in each of its
  failure branches: username not found, account locked, password not matching (or the
  check raising), account inactive. The return value therefore does not tell the failures
  apart. Without storage failures the branch is visible only in the reason of the history
  entry the call appends: \<open>User not found\<close>, \<open>Account locked\<close>, \<open>Invalid password\<close> or
  \<open>Account not activated\<close> (a success appends an entry without a reason).
\<close>

theorem verify_user_failures_indistinguishable:
  "(find (\<lambda>u. u_username u = username) (users d) = None
      \<or> (\<exists>row. find (\<lambda>u. u_username u = username) (users d) = Some row
            \<and> ((\<exists>until. u_account_locked_until row = Some until \<and> now < until)
                 \<or> chk password (u_password_hash row) \<noteq> Some True
                 \<or> \<not> u_is_active row))
     \<longrightarrow> fst (verify_user lf f chk d now username password ip ua) = None)
   \<and> map lh_failure_reason
        (login_history (snd (verify_user no_fault no_fault chk d now username password ip ua)))
     = map lh_failure_reason (login_history d) @
         (case find (\<lambda>u. u_username u = username) (users d) of
            None \<Rightarrow> [Some ''User not found'']
          | Some row \<Rightarrow>
              if \<exists>until. u_account_locked_until row = Some until \<and> now < until
              then [Some ''Account locked'']
              else (case chk password (u_password_hash row) of
                      None \<Rightarrow> []
                    | Some False \<Rightarrow> [Some ''Invalid password'']
                    | Some True \<Rightarrow>
                        if u_is_active row then [None] else [Some ''Account not activated'']))"
proof -
  have a: "fst (verify_user lf f chk d now username password ip ua) = None"
    if "find (\<lambda>u. u_username u = username) (users d) = None"
    using that
    by (simp add: verify_user_def verify_user_body_def commit_def)
  have b: "fst (verify_user lf f chk d now username password ip ua) = None"
    if "find (\<lambda>u. u_username u = username) (users d) = Some row"
      and "(\<exists>until. u_account_locked_until row = Some until \<and> now < until)
             \<or> chk password (u_password_hash row) \<noteq> Some True \<or> \<not> u_is_active row"
    for row
  proof (cases "is_locked now (select_login_row row)")
    case True
    with that(1) show ?thesis
      by (simp add: verify_user_def verify_user_body_def commit_def Let_def)
  next
    case False
    with that(2) have "chk password (u_password_hash row) \<noteq> Some True \<or> \<not> u_is_active row"
      by (auto simp: is_locked_iff)
    with that(1) False show ?thesis
      by (cases "chk password (u_password_hash row)")
         (auto simp: verify_user_def verify_user_body_def commit_def Let_def
            select_login_row_simps split: bool.splits)
  qed
  have c: "map lh_failure_reason
        (login_history (snd (verify_user no_fault no_fault chk d now username password ip ua)))
     = map lh_failure_reason (login_history d) @
         (case find (\<lambda>u. u_username u = username) (users d) of
            None \<Rightarrow> [Some ''User not found'']
          | Some row \<Rightarrow>
              if is_locked now (select_login_row row)
              then [Some ''Account locked'']
              else (case chk password (u_password_hash row) of
                      None \<Rightarrow> []
                    | Some False \<Rightarrow> [Some ''Invalid password'']
                    | Some True \<Rightarrow>
                        if u_is_active row then [None] else [Some ''Account not activated'']))"
    by (simp add: verify_user_def verify_user_body_def log_login_attempt_def
        update_users_where_id_def commit_def no_fault_def Let_def select_login_row_simps
        split: option.splits bool.splits)
  show ?thesis
    using a b c unfolding is_locked_iff by blast
qed

theorem verify_user_failures_indistinguishable_witness:
  "fst (verify_user no_fault no_fault example_checkpw example_db t_now ''zoe'' ''guess''
          None None) = None
   \<and> fst (verify_user no_fault no_fault example_checkpw example_db t_now ''bob'' ''guess''
            None None) = None
   \<and> fst (verify_user no_fault no_fault example_checkpw example_db t_now ''alice'' ''guess''
            None None) = None
   \<and> fst (verify_user no_fault no_fault example_checkpw example_db t_now ''dave'' ''dave-Pw1!''
            None None) = None
   \<and> map lh_failure_reason
        (login_history (snd (verify_user no_fault no_fault example_checkpw example_db t_now
                               ''dave'' ''dave-Pw1!'' None None)))
     = [Some ''Account not activated'']"
proof -
  note t = verify_user_failures_indistinguishable [where lf = no_fault and f = no_fault
             and chk = example_checkpw and d = example_db and now = t_now and ip = None
             and ua = None]
  have h: "login_history example_db = []"
    by (simp add: example_db_def)
  have "fst (verify_user no_fault no_fault example_checkpw example_db t_now ''zoe'' ''guess''
               None None) = None"
    using t [where username = "''zoe''" and password = "''guess''", THEN conjunct1]
    by (simp add: find_example_user)
  moreover have "fst (verify_user no_fault no_fault example_checkpw example_db t_now ''bob''
                        ''guess'' None None) = None"
    using t [where username = "''bob''" and password = "''guess''", THEN conjunct1]
    by (simp add: find_example_user example_bob_def example_user_def seconds_def)
  moreover have "fst (verify_user no_fault no_fault example_checkpw example_db t_now ''alice''
                        ''guess'' None None) = None"
    using t [where username = "''alice''" and password = "''guess''", THEN conjunct1]
    by (simp add: find_example_user example_alice_def example_user_def example_checkpw_def)
  moreover have "fst (verify_user no_fault no_fault example_checkpw example_db t_now ''dave''
                        ''dave-Pw1!'' None None) = None"
    using t [where username = "''dave''" and password = "''dave-Pw1!''", THEN conjunct1]
    by (simp add: find_example_user example_dave_def example_user_def)
  moreover have "map lh_failure_reason
        (login_history (snd (verify_user no_fault no_fault example_checkpw example_db t_now
                               ''dave'' ''dave-Pw1!'' None None)))
     = [Some ''Account not activated'']"
    using t [where username = "''dave''" and password = "''dave-Pw1!''", THEN conjunct2]
    by (simp add: h find_example_user example_dave_def example_user_def example_checkpw_def)
  ultimately show ?thesis by simp
qed

section \<open>Account activation\<close>

lemma find_example_token:
  "find (\<lambda>u. u_activation_token u = Some ''a4'') (users example_db) = Some example_dave"
  "find (\<lambda>u. u_activation_token u = Some ''a5'') (users example_db) = Some example_erin"
  "find (\<lambda>u. u_activation_token u = Some ''a6'') (users example_db) = Some example_frank"
  "find (\<lambda>u. u_activation_token u = Some ''zz'') (users example_db) = None"
  by (simp_all add: example_db_def example_users)

text \<open>
  C7, as the code has it. Without storage failures, \<open>activate_user\<close> returns \<open>False\<close> and
  changes nothing when no account holds the token; returns \<open>True\<close> and changes nothing when
  the holding account is already active; returns \<open>False\<close> and changes nothing, so the
  account stays inactive, when the token was created more than 24 hours before \<open>now\<close>;
  and otherwise, when the creation time of the token is recorded, returns \<open>True\<close>, having
  set \<open>is_active\<close> and cleared both activation-token fields of the account. That success
  clears the token: when no other account holds the same token, consuming it again finds
  no holder, returns \<open>False\<close> and changes nothing. The already-active case is the one of an
  account that is active while it still holds its token.
\<close>

theorem activate_user_cases:
  "(find (\<lambda>u. u_activation_token u = Some token) (users d) = None \<longrightarrow>
      activate_user no_fault d now token = (False, d))
   \<and> (\<forall>user. find (\<lambda>u. u_activation_token u = Some token) (users d) = Some user \<longrightarrow>
        (u_is_active user \<longrightarrow> activate_user no_fault d now token = (True, d))
        \<and> (\<forall>created.
              \<not> u_is_active user \<and> u_activation_token_created_at user = Some created \<longrightarrow>
              (created < now - seconds (24 * 60 * 60) \<longrightarrow>
                 activate_user no_fault d now token = (False, d))
              \<and> (now - seconds (24 * 60 * 60) \<le> created \<longrightarrow>
                   activate_user no_fault d now token =
                     (True,
                      d\<lparr>users :=
                           map (\<lambda>u. if u_user_id u = u_user_id user
                                    then u\<lparr>u_is_active := True, u_activation_token := None,
                                           u_activation_token_created_at := None\<rparr>
                                    else u) (users d)\<rparr>)
                   \<and> ((\<forall>v\<in>set (users d). u_activation_token v = Some token \<longrightarrow>
                                             u_user_id v = u_user_id user) \<longrightarrow>
                        activate_user no_fault (snd (activate_user no_fault d now token))
                          later token =
                          (False, snd (activate_user no_fault d now token))))))"
proof -
  let ?P = "\<lambda>u. u_activation_token u = Some token"
  have none: "activate_user no_fault d now token = (False, d)"
    if "find ?P (users d) = None" for d now
    using that
    by (simp add: activate_user_def activate_user_body_def commit_def no_fault_def)
  have active: "activate_user no_fault d now token = (True, d)"
    if "find ?P (users d) = Some user" "u_is_active user" for user
    using that
    by (simp add: activate_user_def activate_user_body_def commit_def no_fault_def)
  have expired: "activate_user no_fault d now token = (False, d)"
    if "find ?P (users d) = Some user" "\<not> u_is_active user"
      "u_activation_token_created_at user = Some created"
      "created < now - seconds (24 * 60 * 60)" for user created
    using that
    by (simp add: activate_user_def activate_user_body_def commit_def no_fault_def)
  have fresh: "activate_user no_fault d now token =
                 (True,
                  d\<lparr>users :=
                       map (\<lambda>u. if u_user_id u = u_user_id user
                                then u\<lparr>u_is_active := True, u_activation_token := None,
                                       u_activation_token_created_at := None\<rparr>
                                else u) (users d)\<rparr>)"
    if "find ?P (users d) = Some user" "\<not> u_is_active user"
      "u_activation_token_created_at user = Some created"
      "now - seconds (24 * 60 * 60) \<le> created" for user created
    using that
    by (simp add: activate_user_def activate_user_body_def commit_def no_fault_def
        update_users_where_id_def activation_update_def)
  have again: "activate_user no_fault (snd (activate_user no_fault d now token)) later token =
                 (False, snd (activate_user no_fault d now token))"
    if f: "find ?P (users d) = Some user" "\<not> u_is_active user"
      "u_activation_token_created_at user = Some created"
      "now - seconds (24 * 60 * 60) \<le> created"
      and u: "\<forall>v\<in>set (users d). u_activation_token v = Some token \<longrightarrow>
                u_user_id v = u_user_id user" for user created
  proof -
    have "find ?P (users (snd (activate_user no_fault d now token))) = None"
      unfolding fresh [OF f] using u by (auto simp: find_None_iff)
    then show ?thesis by (rule none)
  qed
  show ?thesis
    using none [of d now] active expired fresh again by blast
qed

theorem activate_user_cases_witness:
  "activate_user no_fault example_db t_now ''zz'' = (False, example_db)
   \<and> activate_user no_fault example_db t_now ''a6'' = (True, example_db)
   \<and> activate_user no_fault example_db t_now ''a5'' = (False, example_db)
   \<and> fst (activate_user no_fault example_db t_now ''a4'') = True
   \<and> map (\<lambda>u. (u_is_active u, u_activation_token u, u_activation_token_created_at u))
        (filter (\<lambda>u. u_username u = ''dave'')
           (users (snd (activate_user no_fault example_db t_now ''a4''))))
     = [(True, None, None)]"
proof -
  note t = activate_user_cases [where d = example_db and now = t_now and later = t_now]
  have "activate_user no_fault example_db t_now ''zz'' = (False, example_db)"
    using t [where token = "''zz''", THEN conjunct1] by (simp add: find_example_token)
  moreover have "activate_user no_fault example_db t_now ''a6'' = (True, example_db)"
    using t [where token = "''a6''", THEN conjunct2, THEN spec, THEN mp,
        OF find_example_token(3), THEN conjunct1]
    by (simp add: example_frank_def example_user_def)
  moreover have "activate_user no_fault example_db t_now ''a5'' = (False, example_db)"
    using t [where token = "''a5''", THEN conjunct2, THEN spec, THEN mp,
        OF find_example_token(2), THEN conjunct2, THEN spec,
        where x = "t_now - seconds 90000"]
    by (simp add: example_erin_def example_user_def seconds_def)
  moreover have "activate_user no_fault example_db t_now ''a4'' =
                   (True,
                    example_db\<lparr>users :=
                       map (\<lambda>u. if u_user_id u = u_user_id example_dave
                                then u\<lparr>u_is_active := True, u_activation_token := None,
                                       u_activation_token_created_at := None\<rparr>
                                else u) (users example_db)\<rparr>)"
    using t [where token = "''a4''", THEN conjunct2, THEN spec, THEN mp,
        OF find_example_token(1), THEN conjunct2, THEN spec,
        where x = "t_now - seconds 3600"]
    by (simp add: example_dave_def example_user_def seconds_def)
  ultimately show ?thesis
    by (simp add: example_db_def example_users)
qed

text \<open>
  A consumed token does not return success again: dave's token \<open>a4\<close> activates the account,
  and consuming \<open>a4\<close> a second time, the account now active, returns \<open>False\<close>. And the
  last case needs the creation time: gina is inactive and holds \<open>a7\<close> with no creation time
  recorded; reading the time zone of the missing value raises, so the call returns \<open>False\<close>
  and gina stays inactive.
\<close>

theorem activate_user_twice_counterexample:
  "fst (activate_user no_fault example_db t_now ''a4'') = True
   \<and> map u_is_active
        (filter (\<lambda>u. u_username u = ''dave'')
           (users (snd (activate_user no_fault example_db t_now ''a4'')))) = [True]
   \<and> fst (activate_user no_fault (snd (activate_user no_fault example_db t_now ''a4'')) t_now
            ''a4'') = False
   \<and> fst (activate_user no_fault example_gina_db t_now ''a7'') = False
   \<and> map (\<lambda>u. (u_activation_token u, u_activation_token_created_at u, u_is_active u))
        (users (snd (activate_user no_fault example_gina_db t_now ''a7'')))
       = [(Some ''a7'', None, False)]"
proof -
  have first: "activate_user no_fault example_db t_now ''a4'' =
                 (True, update_users_where_id 4 activation_update example_db)"
    by (simp add: activate_user_def activate_user_body_def commit_def no_fault_def
        find_example_token example_dave_def example_user_def t_now_def seconds_def)
  have users: "users (update_users_where_id 4 activation_update example_db) =
                 [example_alice, example_bob, example_carol, activation_update example_dave,
                  example_erin, example_frank]"
    by (simp add: update_users_where_id_def example_db_def example_users)
  have second: "fst (activate_user no_fault (update_users_where_id 4 activation_update example_db)
                       t_now ''a4'') = False"
    by (simp add: activate_user_def activate_user_body_def commit_def no_fault_def users
        activation_update_def example_users)
  have gina: "activate_user no_fault example_gina_db t_now ''a7'' = (False, example_gina_db)"
    by (simp add: activate_user_def activate_user_body_def commit_def no_fault_def
        example_gina_db_def example_gina_def example_user_def)
  have gina_row: "users example_gina_db = [example_gina]"
    by (simp add: example_gina_db_def)
  show ?thesis
    by (simp add: first second gina gina_row)
       (simp add: users activation_update_def example_users example_gina_def)
qed

end
